theory Spec2Isabelle
  imports Complex_Main "HOL-Library.Sublist"
begin

section \<open>Numbers, points, vectors and rays\<close>

text \<open>
  The curve module is TypeScript; every \<open>number\<close> of the source is modelled as a
  \<^typ>\<open>real\<close>: arithmetic is exact, there is no rounding, no NaN and no infinity.
  Where the source divides by a quantity that can be zero (the result would be NaN or
  an infinity) the model has a branch of its own. It returns \<open>None\<close> there, so that
  no theorem speaks about such a run, with one exception: the run of
  \<open>moveSignedDistanceFromFractionGeneric\<close> that starts from 0/0, whose outcome does
  not depend on the curve and is written out. Stroke counts are modelled as
  \<^typ>\<open>int\<close>.
\<close>

text \<open>
  Modelled from the spec: \<open>Point3d\<close>, \<open>Vector3d\<close> and \<open>Ray3d\<close> (the file
  \<open>geometry3d/Point3dVector3d.ts\<close> and \<open>geometry3d/Ray3d.ts\<close> are imported by the
  curve module, their text is not part of the sources at hand): a 3-D coordinate, a
  3-D displacement, and an origin with a direction.
\<close>

datatype point3d = Point3d (px: real) (py: real) (pz: real)

datatype vector3d = Vector3d (vx: real) (vy: real) (vz: real)

record ray3d =
  origin :: point3d
  direction :: vector3d

text \<open>
  Modelled from the spec: \<open>Point3d.distance\<close>, \<open>Vector3d.magnitude\<close>,
  \<open>Point3d.interpolate\<close>, \<open>Ray3d.dotProductToPoint\<close> and
  \<open>Point3d.fractionOfProjectionToLine\<close> (methods of the missing geometry classes):
  the Euclidean distance and length, the point at a fraction of the way between two
  points, the dot product of the ray's direction with the vector from its origin to a
  point (the function \<open>(curve point - space point) . tangent\<close> of the closest point
  search up to sign), and the fraction of the projection of a point onto the line
  through two points, with the given default when the two points coincide.
\<close>

definition distance :: "point3d \<Rightarrow> point3d \<Rightarrow> real" where
  "distance p q = sqrt ((px q - px p) * (px q - px p) + (py q - py p) * (py q - py p)
                        + (pz q - pz p) * (pz q - pz p))"

definition magnitude :: "vector3d \<Rightarrow> real" where
  "magnitude v = sqrt (vx v * vx v + vy v * vy v + vz v * vz v)"

definition pointInterpolate :: "point3d \<Rightarrow> real \<Rightarrow> point3d \<Rightarrow> point3d" where
  "pointInterpolate p f q =
     Point3d (px p + f * (px q - px p)) (py p + f * (py q - py p)) (pz p + f * (pz q - pz p))"

definition dotProductToPoint :: "ray3d \<Rightarrow> point3d \<Rightarrow> real" where
  "dotProductToPoint r p =
     vx (direction r) * (px p - px (origin r)) + vy (direction r) * (py p - py (origin r))
     + vz (direction r) * (pz p - pz (origin r))"

definition fractionOfProjectionToLine :: "point3d \<Rightarrow> point3d \<Rightarrow> point3d \<Rightarrow> real \<Rightarrow> real" where
  "fractionOfProjectionToLine spacePoint startPoint endPoint defaultFraction =
     (let denominator = (px endPoint - px startPoint) * (px endPoint - px startPoint)
                      + (py endPoint - py startPoint) * (py endPoint - py startPoint)
                      + (pz endPoint - pz startPoint) * (pz endPoint - pz startPoint)
      in if denominator = 0 then defaultFraction
         else ((px endPoint - px startPoint) * (px spacePoint - px startPoint)
             + (py endPoint - py startPoint) * (py spacePoint - py startPoint)
             + (pz endPoint - pz startPoint) * (pz spacePoint - pz startPoint)) / denominator)"

text \<open>
  Modelled from the spec: the static helpers of class \<open>Geometry\<close> (file
  \<open>Geometry.ts\<close>, imported but not at hand). \<open>interpolate\<close> is the linear
  interpolation of the spec's seed estimate; \<open>isIn01\<close> is "the target does not exit
  [0,1]"; \<open>clampToStartEnd\<close> clamps to an interval; \<open>conditionalDivideFraction\<close>
  is the division that reports no result for a zero denominator (the zero-length
  curve of the doc comment of \<open>moveSignedDistanceFromFraction\<close>);
  \<open>inverseInterpolate\<close> is the linear seed root between two samples.
\<close>

definition interpolate :: "real \<Rightarrow> real \<Rightarrow> real \<Rightarrow> real" where
  "interpolate a f b = a + f * (b - a)"

definition isIn01 :: "real \<Rightarrow> bool" where
  "isIn01 x = (0 \<le> x \<and> x \<le> 1)"

definition clampToStartEnd :: "real \<Rightarrow> real \<Rightarrow> real \<Rightarrow> real" where
  "clampToStartEnd x a b = (if x < a then a else if b < x then b else x)"

definition conditionalDivideFraction :: "real \<Rightarrow> real \<Rightarrow> real option" where
  "conditionalDivideFraction numerator denominator =
     (if denominator = 0 then None else Some (numerator / denominator))"

definition inverseInterpolate :: "real \<Rightarrow> real \<Rightarrow> real \<Rightarrow> real \<Rightarrow> real option" where
  "inverseInterpolate x0 f0 x1 f1 =
     (case conditionalDivideFraction (0 - f0) (f1 - f0) of
        None \<Rightarrow> None
      | Some g \<Rightarrow> Some (interpolate x0 g x1))"

section \<open>Curve primitives and the stroke-emission protocol\<close>

text \<open>
  \<open>CurvePrimitive\<close> is an abstract class. A curve is modelled by the methods the
  generic algorithms call on it: \<open>fractionToPoint\<close>,
  \<open>fractionToPointAndDerivative\<close>, \<open>getFractionToDistanceScale\<close> (\<open>None\<close> is
  \<open>undefined\<close>), and \<open>emitStrokableParts\<close>, which is the sequence of
  \<open>IStrokeHandler\<close> calls the curve makes on the handler it is given (the handlers
  return nothing, so the sequence does not depend on the handler). The methods
  \<open>curveLength\<close>, \<open>curveLengthBetweenFractions\<close>, \<open>closestPoint\<close>, ... below
  are the base class implementations.
\<close>

datatype curvePrimitive = CurvePrimitive
    (fractionToPoint: "real \<Rightarrow> point3d")
    (fractionToPointAndDerivative: "real \<Rightarrow> ray3d")
    (getFractionToDistanceScale: "real option")
    (emitStrokableParts: "strokeCall list")
and strokeCall =
    StartCurvePrimitive "curvePrimitive option"
  | EndCurvePrimitive
  | StartParentCurvePrimitive "curvePrimitive option"
  | EndParentCurvePrimitive "curvePrimitive option"
  | AnnounceIntervalForUniformStepStrokes curvePrimitive int real real
  | AnnounceSegmentInterval curvePrimitive point3d point3d int real real
  | AnnouncePointTangent point3d real vector3d

section \<open>The length integrator: \<open>CurveLengthContext\<close>\<close>

text \<open>
  Modelled from the spec: the class \<open>Quadrature\<close> (file \<open>numerics/Quadrature.ts\<close>,
  not at hand) holds the tables for 1 to 5 point Gaussian quadrature. The constructor of
  \<open>CurveLengthContext\<close> selects one of its five set-up functions; \<open>gaussOrder\<close> is
  the number of points of each. What a set-up function writes into the abscissa and
  weight arrays for an interval is a parameter \<open>Q\<close> of the integrator: the list of
  (abscissa, weight) pairs.
\<close>

datatype gaussMapper = SetupGauss1 | SetupGauss2 | SetupGauss3 | SetupGauss4 | SetupGauss5

fun gaussOrder :: "gaussMapper \<Rightarrow> nat" where
  "gaussOrder SetupGauss1 = 1"
| "gaussOrder SetupGauss2 = 2"
| "gaussOrder SetupGauss3 = 3"
| "gaussOrder SetupGauss4 = 4"
| "gaussOrder SetupGauss5 = 5"

type_synonym quadrature = "gaussMapper \<Rightarrow> real \<Rightarrow> real \<Rightarrow> (real \<times> real) list"

record curveLengthContext =
  len_curve :: "curvePrimitive option"
  len_summedLength :: real
  len_fraction0 :: real
  len_fraction1 :: real
  len_gaussMapper :: gaussMapper

text \<open>The constructor: the clamp of \<open>numGaussPoints\<close> and the \<open>switch\<close> on it.\<close>

definition selectGaussMapper :: "real \<Rightarrow> gaussMapper" where
  "selectGaussMapper numGaussPoints =
     (let n = (if numGaussPoints > 5 \<or> numGaussPoints < 1 then 5 else numGaussPoints)
      in if n = 1 then SetupGauss1
         else if n = 2 then SetupGauss2
         else if n = 3 then SetupGauss3
         else if n = 4 then SetupGauss4
         else SetupGauss5)"

definition newCurveLengthContext :: "real \<Rightarrow> real \<Rightarrow> real \<Rightarrow> curveLengthContext" where
  "newCurveLengthContext fraction0 fraction1 numGaussPoints =
     \<lparr> len_curve = None,
       len_summedLength = 0,
       len_fraction0 = (if fraction0 < fraction1 then fraction0 else fraction1),
       len_fraction1 = (if fraction0 < fraction1 then fraction1 else fraction0),
       len_gaussMapper = selectGaussMapper numGaussPoints \<rparr>"

definition getSum :: "curveLengthContext \<Rightarrow> real" where
  "getSum ctx = len_summedLength ctx"

definition tangentMagnitude :: "curvePrimitive \<Rightarrow> real \<Rightarrow> real" where
  "tangentMagnitude cp f = magnitude (direction (fractionToPointAndDerivative cp f))"

text \<open>
  One step of the inner loop over the Gauss points and one step of the loop over the
  strokes of \<open>announceIntervalForUniformStepStrokes\<close>. Inside that method
  \<open>this._curve\<close> is the announced curve \<open>cp\<close> (set by \<open>startCurvePrimitive(cp)\<close>
  before the loop), so \<open>tangentMagnitude\<close> is evaluated on \<open>cp\<close>.
\<close>

definition lengthGaussStep :: "curvePrimitive \<Rightarrow> real \<times> real \<Rightarrow> curveLengthContext \<Rightarrow> curveLengthContext" where
  "lengthGaussStep cp xw ctx =
     ctx\<lparr> len_summedLength := len_summedLength ctx + snd xw * tangentMagnitude cp (fst xw) \<rparr>"

definition lengthStrokeStep ::
  "quadrature \<Rightarrow> curvePrimitive \<Rightarrow> int \<Rightarrow> real \<Rightarrow> real \<Rightarrow> int \<Rightarrow> curveLengthContext \<Rightarrow> curveLengthContext" where
  "lengthStrokeStep Q cp numStrokes fraction0 fraction1 i ctx =
     (let df = 1 / real_of_int numStrokes;
          fractionA = interpolate fraction0 (real_of_int (i - 1) * df) fraction1;
          fractionB = (if i = numStrokes then fraction1
                       else interpolate fraction0 (real_of_int i * df) fraction1)
      in fold (lengthGaussStep cp) (Q (len_gaussMapper ctx) fractionA fractionB) ctx)"

definition lengthAnnounceIntervalForUniformStepStrokes ::
  "quadrature \<Rightarrow> curveLengthContext \<Rightarrow> curvePrimitive \<Rightarrow> int \<Rightarrow> real \<Rightarrow> real \<Rightarrow> curveLengthContext" where
  "lengthAnnounceIntervalForUniformStepStrokes Q ctx cp numStrokes fraction0 fraction1 =
     (let f0 = (if fraction0 < len_fraction0 ctx then len_fraction0 ctx else fraction0);
          f1 = (if fraction1 > len_fraction1 ctx then len_fraction1 ctx else fraction1)
      in if f1 > f0 then
           (let ctx1 = ctx\<lparr> len_curve := Some cp \<rparr>;
                n = (if numStrokes < 1 then 1 else numStrokes)
            in fold (lengthStrokeStep Q cp n f0 f1) [1..n] ctx1)
         else ctx)"

definition lengthAnnounceSegmentInterval ::
  "curveLengthContext \<Rightarrow> point3d \<Rightarrow> point3d \<Rightarrow> real \<Rightarrow> real \<Rightarrow> curveLengthContext" where
  "lengthAnnounceSegmentInterval ctx point0 point1 fraction0 fraction1 =
     (let segmentLength = distance point0 point1
      in if len_fraction0 ctx \<le> fraction0 \<and> fraction1 \<le> len_fraction1 ctx then
           ctx\<lparr> len_summedLength := len_summedLength ctx + segmentLength \<rparr>
         else
           (let g0 = (if fraction0 < len_fraction0 ctx then len_fraction0 ctx else fraction0);
                g1 = (if fraction1 > len_fraction1 ctx then len_fraction1 ctx else fraction1)
            in if g1 > g0 then
                 ctx\<lparr> len_summedLength :=
                        len_summedLength ctx + segmentLength * (g1 - g0) / (fraction1 - fraction0) \<rparr>
               else ctx))"

text \<open>The handler as a whole: what each call of the protocol does to the context.\<close>

fun lengthHandle :: "quadrature \<Rightarrow> strokeCall \<Rightarrow> curveLengthContext \<Rightarrow> curveLengthContext" where
  "lengthHandle Q (StartCurvePrimitive c) ctx = ctx\<lparr> len_curve := c \<rparr>"
| "lengthHandle Q EndCurvePrimitive ctx = ctx"
| "lengthHandle Q (StartParentCurvePrimitive c) ctx = ctx"
| "lengthHandle Q (EndParentCurvePrimitive c) ctx = ctx"
| "lengthHandle Q (AnnounceIntervalForUniformStepStrokes cp numStrokes fraction0 fraction1) ctx =
     lengthAnnounceIntervalForUniformStepStrokes Q ctx cp numStrokes fraction0 fraction1"
| "lengthHandle Q (AnnounceSegmentInterval cp point0 point1 numStrokes fraction0 fraction1) ctx =
     lengthAnnounceSegmentInterval ctx point0 point1 fraction0 fraction1"
| "lengthHandle Q (AnnouncePointTangent xyz f tangent) ctx = ctx"

section \<open>Lengths of a curve primitive\<close>

definition curveLength :: "quadrature \<Rightarrow> curvePrimitive \<Rightarrow> real" where
  "curveLength Q c = getSum (fold (lengthHandle Q) (emitStrokableParts c) (newCurveLengthContext 0 1 5))"

definition curveLengthBetweenFractions :: "quadrature \<Rightarrow> curvePrimitive \<Rightarrow> real \<Rightarrow> real \<Rightarrow> real" where
  "curveLengthBetweenFractions Q c fraction0 fraction1 =
     (if fraction0 = fraction1 then 0
      else case getFractionToDistanceScale c of
             Some scale \<Rightarrow> \<bar>(fraction1 - fraction0) * curveLength Q c\<bar>
           | None \<Rightarrow>
               \<bar>getSum (fold (lengthHandle Q) (emitStrokableParts c)
                              (newCurveLengthContext fraction0 fraction1 5))\<bar>)"

definition curveLengthWithFixedIntervalCountQuadrature ::
  "quadrature \<Rightarrow> curvePrimitive \<Rightarrow> real \<Rightarrow> real \<Rightarrow> int \<Rightarrow> real \<Rightarrow> real" where
  "curveLengthWithFixedIntervalCountQuadrature Q c fraction0 fraction1 numInterval numGauss =
     (let f0 = (if fraction0 > fraction1 then fraction1 else fraction0);
          f1 = (if fraction0 > fraction1 then fraction0 else fraction1);
          context = newCurveLengthContext f0 f1 numGauss
      in \<bar>getSum (lengthAnnounceIntervalForUniformStepStrokes Q context c numInterval f0 f1)\<bar>)"

section \<open>Query result records\<close>

text \<open>
  Modelled from the spec: \<open>CurveLocationDetail\<close> and \<open>CurveSearchStatus\<close> (file
  \<open>curve/CurveLocationDetail.ts\<close>, imported but not at hand): the query result
  record with its back-reference to the curve, the fraction, the point, the
  status-dependent scalar \<open>a\<close> (field \<open>a_distance\<close> here) and the status tag, which
  is \<open>None\<close> while no status has been assigned.
\<close>

datatype curveSearchStatus = error | success | stoppedAtBoundary

record curveLocationDetail =
  curve :: curvePrimitive
  fraction :: real
  point :: point3d
  a_distance :: real
  curveSearchStatus :: "curveSearchStatus option"

text \<open>
  Modelled from the spec: the static constructors of \<open>CurveLocationDetail\<close>.
  \<open>createCurveFractionPoint\<close> records the given curve, fraction and point;
  \<open>createCurveEvaluatedFraction\<close> evaluates the point on the curve at the fraction;
  \<open>createCurveFractionPointDistanceCurveSearchStatus\<close> records all five fields.
  \<open>createConditionalMoveSignedDistance\<close> is step 1 of the signed-distance
  repositioner: if extension is disallowed and the target fraction exits [0,1], clamp
  to the boundary and report the achieved (smaller-magnitude) signed distance as
  stoppedAtBoundary; else the point at the target fraction with the requested distance
  and status success.
\<close>

definition createCurveFractionPoint :: "curvePrimitive \<Rightarrow> real \<Rightarrow> point3d \<Rightarrow> curveLocationDetail" where
  "createCurveFractionPoint c f p =
     \<lparr> curve = c, fraction = f, point = p, a_distance = 0, curveSearchStatus = None \<rparr>"

definition createCurveEvaluatedFraction :: "curvePrimitive \<Rightarrow> real \<Rightarrow> curveLocationDetail" where
  "createCurveEvaluatedFraction c f =
     \<lparr> curve = c, fraction = f, point = fractionToPoint c f, a_distance = 0,
       curveSearchStatus = None \<rparr>"

definition createCurveFractionPointDistanceCurveSearchStatus ::
  "curvePrimitive \<Rightarrow> real \<Rightarrow> point3d \<Rightarrow> real \<Rightarrow> curveSearchStatus \<Rightarrow> curveLocationDetail" where
  "createCurveFractionPointDistanceCurveSearchStatus c f p d status =
     \<lparr> curve = c, fraction = f, point = p, a_distance = d, curveSearchStatus = Some status \<rparr>"

definition createConditionalMoveSignedDistance ::
  "quadrature \<Rightarrow> bool \<Rightarrow> curvePrimitive \<Rightarrow> real \<Rightarrow> real \<Rightarrow> real \<Rightarrow> curveLocationDetail" where
  "createConditionalMoveSignedDistance Q allowExtension c startFraction endFraction requestedSignedDistance =
     (if \<not> allowExtension \<and> \<not> isIn01 endFraction then
        (if endFraction < 0 then
           (createCurveEvaluatedFraction c 0)
             \<lparr> a_distance := - curveLengthBetweenFractions Q c startFraction 0,
               curveSearchStatus := Some stoppedAtBoundary \<rparr>
         else
           (createCurveEvaluatedFraction c 1)
             \<lparr> a_distance := curveLengthBetweenFractions Q c startFraction 1,
               curveSearchStatus := Some stoppedAtBoundary \<rparr>)
      else
        (createCurveEvaluatedFraction c endFraction)
          \<lparr> a_distance := requestedSignedDistance, curveSearchStatus := Some success \<rparr>)"

section \<open>The signed-distance repositioner\<close>

text \<open>
  The loop of \<open>moveSignedDistanceFromFractionGeneric\<close>. The state holds the loop's
  variables; the first argument of \<open>moveLoop\<close> is the number of iterations left (10
  at the start). The result is \<open>None\<close> when the source would divide by a zero tangent
  magnitude; otherwise it is the final state, with \<open>True\<close> when the loop was left by
  one of its two \<open>break\<close> statements and \<open>False\<close> when it ran out of iterations.
\<close>

record moveState =
  fractionA :: real
  fractionB :: real
  distanceA :: real
  numConverged :: nat

fun moveLoop ::
  "quadrature \<Rightarrow> curvePrimitive \<Rightarrow> real \<Rightarrow> real \<Rightarrow> real \<Rightarrow> nat \<Rightarrow> moveState \<Rightarrow> (bool \<times> moveState) option" where
  "moveLoop Q c absDistance directionFactor tol 0 st = Some (False, st)"
| "moveLoop Q c absDistance directionFactor tol (Suc n) st =
     (let distanceAB = curveLengthBetweenFractions Q c (fractionA st) (fractionB st);
          directionAB = (if fractionB st > fractionA st then directionFactor else - directionFactor);
          distance0B = distanceA st + directionAB * distanceAB;
          distanceError = absDistance - distance0B;
          converged = (if \<bar>distanceError\<bar> < tol then numConverged st + 1 else 0)
      in if \<bar>distanceError\<bar> < tol \<and> converged > 1 then
           Some (True, st\<lparr> numConverged := converged \<rparr>)
         else
           (let speed = tangentMagnitude c (fractionB st)
            in if speed = 0 then None
               else
                 (let newA = fractionB st;
                      newB = newA + directionFactor * distanceError / speed
                  in if newA = newB then
                       Some (True, st\<lparr> fractionA := newA, fractionB := newB, numConverged := 100 \<rparr>)
                     else
                       moveLoop Q c absDistance directionFactor tol n
                         (st\<lparr> fractionA := newA, fractionB := newB, distanceA := distance0B,
                             numConverged := converged \<rparr>))))"

text \<open>
  \<open>moveSignedDistanceFromFractionGeneric\<close>, in two parts. \<open>moveIterations\<close> is the
  loop as the method runs it, from the seed estimate: it is \<open>None\<close> when the method
  returns before the loop (the available length is too short and extension is not
  allowed) and when the source divides by zero (a zero available length, or a zero
  tangent magnitude in the loop).

  One run that starts with a division by zero is modelled by its outcome. When the
  available length and the requested distance are both 0, \<open>fractionStep\<close> is 0/0,
  that is NaN, and so is the seed estimate \<open>fractionB\<close>. Every later estimate is
  the previous one plus a step, so it is NaN again; \<open>tol\<close> is \<open>1.0e-12 * 0 = 0\<close>,
  and no absolute value is under it; and \<open>fractionA === fractionB\<close> is false for
  NaN. So neither \<open>break\<close> is taken, \<open>numConverged\<close> is 0 after the 10 iterations,
  and the method returns the detail at \<open>startFraction\<close> with \<open>a = 0\<close> and the
  status \<open>error\<close>, whatever the curve computes on the way. In every other run that
  divides by zero the method is \<open>None\<close>.
\<close>

definition moveIterations ::
  "quadrature \<Rightarrow> curvePrimitive \<Rightarrow> real \<Rightarrow> real \<Rightarrow> bool \<Rightarrow> (bool \<times> moveState) option" where
  "moveIterations Q c startFraction signedDistance allowExtension =
     (let limitFraction = (if signedDistance > 0 then 1 else 0);
          absDistance = \<bar>signedDistance\<bar>;
          directionFactor = (if signedDistance < 0 then - 1 else 1);
          availableLength = curveLengthBetweenFractions Q c startFraction limitFraction
      in if availableLength < absDistance \<and> \<not> allowExtension then None
         else if availableLength = 0 then None
         else
           (let fractionStep = absDistance / availableLength;
                st0 = \<lparr> fractionA = startFraction,
                        fractionB = interpolate startFraction fractionStep limitFraction,
                        distanceA = 0, numConverged = 0 \<rparr>;
                tol = (1 / 10 ^ 12) * availableLength
            in moveLoop Q c absDistance directionFactor tol 10 st0))"

definition moveSignedDistanceFromFractionGeneric ::
  "quadrature \<Rightarrow> curvePrimitive \<Rightarrow> real \<Rightarrow> real \<Rightarrow> bool \<Rightarrow> curveLocationDetail option" where
  "moveSignedDistanceFromFractionGeneric Q c startFraction signedDistance allowExtension =
     (let limitFraction = (if signedDistance > 0 then 1 else 0);
          absDistance = \<bar>signedDistance\<bar>;
          availableLength = curveLengthBetweenFractions Q c startFraction limitFraction
      in if availableLength < absDistance \<and> \<not> allowExtension then
           Some (createConditionalMoveSignedDistance Q allowExtension c startFraction limitFraction
                   signedDistance)
         else if availableLength = 0 \<and> absDistance = 0 then
           Some ((createCurveEvaluatedFraction c startFraction)
                   \<lparr> a_distance := 0, curveSearchStatus := Some error \<rparr>)
         else
           (case moveIterations Q c startFraction signedDistance allowExtension of
              None \<Rightarrow> None
            | Some (broke, st) \<Rightarrow>
                if numConverged st > 1 then
                  Some (createConditionalMoveSignedDistance Q False c startFraction (fractionB st)
                          signedDistance)
                else
                  Some ((createCurveEvaluatedFraction c startFraction)
                          \<lparr> a_distance := 0, curveSearchStatus := Some error \<rparr>)))"

definition moveSignedDistanceFromFraction ::
  "quadrature \<Rightarrow> curvePrimitive \<Rightarrow> real \<Rightarrow> real \<Rightarrow> bool \<Rightarrow> curveLocationDetail option" where
  "moveSignedDistanceFromFraction Q c startFraction signedDistance allowExtension =
     (case getFractionToDistanceScale c of
        Some scale \<Rightarrow>
          (let totalLength = curveLength Q c
           in case conditionalDivideFraction signedDistance totalLength of
                None \<Rightarrow>
                  Some (createCurveFractionPointDistanceCurveSearchStatus c startFraction
                          (fractionToPoint c startFraction) 0 error)
              | Some signedFractionMove \<Rightarrow>
                  Some (createConditionalMoveSignedDistance Q allowExtension c startFraction
                          (startFraction + signedFractionMove) signedDistance))
      | None \<Rightarrow>
          moveSignedDistanceFromFractionGeneric Q c startFraction signedDistance allowExtension)"

section \<open>The closest-point searcher: \<open>ClosestPointStrokeHandler\<close>\<close>

text \<open>
  Modelled from the spec: the root finder \<open>Newton1dUnboundedApproximateDerivative\<close>
  (file \<open>numerics/Newton.ts\<close>, not at hand) is a bounded-iteration 1-D Newton solver
  on the handler's \<open>evaluate\<close> method. It is a parameter \<open>N\<close> of the searches: given
  the function \<open>evaluate\<close> computes (\<open>None\<close> where \<open>evaluate\<close> returns false) and the
  start value of \<open>setX\<close>, it returns \<open>Some\<close> of the value of \<open>getX\<close> when
  \<open>runIterations\<close> returns true, and \<open>None\<close> when it returns false.
\<close>

type_synonym newton = "(real \<Rightarrow> real option) \<Rightarrow> real \<Rightarrow> real option"

text \<open>
  The fields of the handler, with those of its base class \<open>NewtonRotRStrokeHandler\<close>.
  The scratch point and ray and the solver object are left out.
\<close>

record closestPointStrokeHandler =
  cps_parentCurvePrimitive :: "curvePrimitive option"
  cps_curve :: "curvePrimitive option"
  cps_closestPoint :: "curveLocationDetail option"
  cps_spacePoint :: point3d
  cps_extend :: bool
  cps_fractionA :: real
  cps_functionA :: real
  cps_functionB :: real
  cps_fractionB :: real
  cps_numThisCurve :: nat

definition cpsStartCurvePrimitive ::
  "closestPointStrokeHandler \<Rightarrow> curvePrimitive option \<Rightarrow> closestPointStrokeHandler" where
  "cpsStartCurvePrimitive h c =
     h\<lparr> cps_curve := c, cps_fractionA := 0, cps_numThisCurve := 0, cps_functionA := 0 \<rparr>"

definition newClosestPointStrokeHandler :: "point3d \<Rightarrow> bool \<Rightarrow> closestPointStrokeHandler" where
  "newClosestPointStrokeHandler spacePoint allowExtend =
     cpsStartCurvePrimitive
       \<lparr> cps_parentCurvePrimitive = None, cps_curve = None, cps_closestPoint = None,
         cps_spacePoint = spacePoint, cps_extend = allowExtend,
         cps_fractionA = 0, cps_functionA = 0, cps_functionB = 0, cps_fractionB = 0,
         cps_numThisCurve = 0 \<rparr> None"

definition announceCandidate ::
  "closestPointStrokeHandler \<Rightarrow> curvePrimitive \<Rightarrow> real \<Rightarrow> point3d \<Rightarrow> closestPointStrokeHandler" where
  "announceCandidate h cp f p =
     (let d = distance (cps_spacePoint h) p
      in case cps_closestPoint h of
           Some best \<Rightarrow>
             if d > a_distance best then h
             else h\<lparr> cps_closestPoint := Some
                      ((createCurveFractionPoint cp f p)
                         \<lparr> a_distance := d,
                           curve := (case cps_parentCurvePrimitive h of Some parent \<Rightarrow> parent | None \<Rightarrow> cp) \<rparr>) \<rparr>
         | None \<Rightarrow>
             h\<lparr> cps_closestPoint := Some
                  ((createCurveFractionPoint cp f p)
                     \<lparr> a_distance := d,
                       curve := (case cps_parentCurvePrimitive h of Some parent \<Rightarrow> parent | None \<Rightarrow> cp) \<rparr>) \<rparr>)"

text \<open>
  The first half of \<open>announceSegmentInterval\<close>: the local fraction of the projection
  and its clamping.
\<close>

definition segmentLocalFraction ::
  "closestPointStrokeHandler \<Rightarrow> point3d \<Rightarrow> point3d \<Rightarrow> real \<Rightarrow> real \<Rightarrow> real" where
  "segmentLocalFraction h point0 point1 fraction0 fraction1 =
     (let localFraction = fractionOfProjectionToLine (cps_spacePoint h) point0 point1 0
      in if \<not> cps_extend h then clampToStartEnd localFraction 0 1
         else
           (let lf1 = (if fraction0 \<noteq> 0 then max localFraction 0 else localFraction)
            in if fraction1 \<noteq> 1 then min lf1 1 else lf1))"

definition cpsAnnounceSegmentInterval ::
  "closestPointStrokeHandler \<Rightarrow> curvePrimitive \<Rightarrow> point3d \<Rightarrow> point3d \<Rightarrow> real \<Rightarrow> real \<Rightarrow> closestPointStrokeHandler" where
  "cpsAnnounceSegmentInterval h cp point0 point1 fraction0 fraction1 =
     (let localFraction = segmentLocalFraction h point0 point1 fraction0 fraction1;
          workPoint = pointInterpolate point0 localFraction point1;
          globalFraction = interpolate fraction0 localFraction fraction1
      in announceCandidate h cp globalFraction workPoint)"

definition cpsAnnounceSolutionFraction :: "closestPointStrokeHandler \<Rightarrow> real \<Rightarrow> closestPointStrokeHandler" where
  "cpsAnnounceSolutionFraction h f =
     (case cps_curve h of
        Some c \<Rightarrow> announceCandidate h c f (fractionToPoint c f)
      | None \<Rightarrow> h)"

definition cpsEvaluate :: "closestPointStrokeHandler \<Rightarrow> real \<Rightarrow> real option" where
  "cpsEvaluate h f =
     (case (case cps_parentCurvePrimitive h of Some parent \<Rightarrow> Some parent | None \<Rightarrow> cps_curve h) of
        Some c \<Rightarrow> Some (dotProductToPoint (fractionToPointAndDerivative c f) (cps_spacePoint h))
      | None \<Rightarrow> None)"

text \<open>
  \<open>searchInterval\<close>. The test \<open>if (fraction)\<close> of the source is false for
  \<open>undefined\<close> and for the number 0.
\<close>

definition cpsSearchInterval :: "newton \<Rightarrow> closestPointStrokeHandler \<Rightarrow> closestPointStrokeHandler" where
  "cpsSearchInterval N h =
     (if cps_functionA h * cps_functionB h > 0 then h
      else
        (let h1 = (if cps_functionA h = 0 then cpsAnnounceSolutionFraction h (cps_fractionA h) else h);
             h2 = (if cps_functionB h1 = 0 then cpsAnnounceSolutionFraction h1 (cps_fractionB h1) else h1)
         in if cps_functionA h2 * cps_functionB h2 < 0 then
              (case inverseInterpolate (cps_fractionA h2) (cps_functionA h2)
                                      (cps_fractionB h2) (cps_functionB h2) of
                 None \<Rightarrow> h2
               | Some f \<Rightarrow>
                   if f = 0 then h2
                   else (case N (cpsEvaluate h2) f of
                           Some x \<Rightarrow> cpsAnnounceSolutionFraction h2 x
                         | None \<Rightarrow> h2))
            else h2))"

definition announceRay :: "newton \<Rightarrow> closestPointStrokeHandler \<Rightarrow> real \<Rightarrow> ray3d \<Rightarrow> closestPointStrokeHandler" where
  "announceRay N h f data =
     (let h1 = h\<lparr> cps_functionB := dotProductToPoint data (cps_spacePoint h), cps_fractionB := f \<rparr>;
          h2 = h1\<lparr> cps_numThisCurve := cps_numThisCurve h1 + 1 \<rparr>;
          h3 = (if cps_numThisCurve h1 > 0 then cpsSearchInterval N h2 else h2)
      in h3\<lparr> cps_functionA := cps_functionB h3, cps_fractionA := cps_fractionB h3 \<rparr>)"

definition cpsAnnounceIntervalForUniformStepStrokes ::
  "newton \<Rightarrow> closestPointStrokeHandler \<Rightarrow> curvePrimitive \<Rightarrow> int \<Rightarrow> real \<Rightarrow> real \<Rightarrow> closestPointStrokeHandler" where
  "cpsAnnounceIntervalForUniformStepStrokes N h cp numStrokes fraction0 fraction1 =
     (let h1 = cpsStartCurvePrimitive h (Some cp);
          n = (if numStrokes < 1 then 1 else numStrokes);
          df = 1 / real_of_int n
      in fold (\<lambda>i hh. let f = interpolate fraction0 (real_of_int i * df) fraction1
                       in announceRay N hh f (fractionToPointAndDerivative cp f))
              [0..n] h1)"

fun cpsHandle :: "newton \<Rightarrow> strokeCall \<Rightarrow> closestPointStrokeHandler \<Rightarrow> closestPointStrokeHandler" where
  "cpsHandle N (StartCurvePrimitive c) h = cpsStartCurvePrimitive h c"
| "cpsHandle N EndCurvePrimitive h = h"
| "cpsHandle N (StartParentCurvePrimitive c) h = h\<lparr> cps_parentCurvePrimitive := c \<rparr>"
| "cpsHandle N (EndParentCurvePrimitive c) h = h\<lparr> cps_parentCurvePrimitive := None \<rparr>"
| "cpsHandle N (AnnounceIntervalForUniformStepStrokes cp numStrokes fraction0 fraction1) h =
     cpsAnnounceIntervalForUniformStepStrokes N h cp numStrokes fraction0 fraction1"
| "cpsHandle N (AnnounceSegmentInterval cp point0 point1 numStrokes fraction0 fraction1) h =
     cpsAnnounceSegmentInterval h cp point0 point1 fraction0 fraction1"
| "cpsHandle N (AnnouncePointTangent xyz f tangent) h =
     announceRay N h f \<lparr> origin = xyz, direction = tangent \<rparr>"

definition claimResult :: "newton \<Rightarrow> closestPointStrokeHandler \<Rightarrow> curveLocationDetail option" where
  "claimResult N h =
     (case cps_closestPoint h of
        Some best \<Rightarrow>
          (let h1 = h\<lparr> cps_curve := Some (curve best) \<rparr>
           in case N (cpsEvaluate h1) (fraction best) of
                Some x \<Rightarrow> cps_closestPoint (cpsAnnounceSolutionFraction h1 x)
              | None \<Rightarrow> cps_closestPoint h1)
      | None \<Rightarrow> None)"

definition closestPoint :: "newton \<Rightarrow> curvePrimitive \<Rightarrow> point3d \<Rightarrow> bool \<Rightarrow> curveLocationDetail option" where
  "closestPoint N c spacePoint allowExtend =
     claimResult N (fold (cpsHandle N) (emitStrokableParts c)
                         (newClosestPointStrokeHandler spacePoint allowExtend))"

section \<open>The plane-intersection searcher: \<open>AppendPlaneIntersectionStrokeHandler\<close>\<close>

text \<open>
  Modelled from the spec: the interface \<open>PlaneAltitudeEvaluator\<close> (declared in
  \<open>Geometry.ts\<close>, not at hand) gives the signed altitude of a point and the velocity
  of a vector with respect to a plane; \<open>Order2Bezier.solveCoffs\<close> (file
  \<open>numerics/BezierPolynomials.ts\<close>, not at hand) solves for the root of the altitude
  model over a segment, and is a parameter \<open>S\<close>: \<open>None\<close> is \<open>undefined\<close>.
\<close>

record planeAltitudeEvaluator =
  altitude :: "point3d \<Rightarrow> real"
  velocity :: "vector3d \<Rightarrow> real"

type_synonym solveCoffs = "real \<Rightarrow> real \<Rightarrow> real option"

record appendPlaneIntersectionStrokeHandler =
  api_parentCurvePrimitive :: "curvePrimitive option"
  api_curve :: "curvePrimitive option"
  api_plane :: planeAltitudeEvaluator
  api_intersections :: "curveLocationDetail list"
  api_fractionA :: real
  api_functionA :: real
  api_functionB :: real
  api_fractionB :: real
  api_derivativeB :: real
  api_numThisCurve :: nat

definition effectiveCurve :: "appendPlaneIntersectionStrokeHandler \<Rightarrow> curvePrimitive option" where
  "effectiveCurve h =
     (case api_parentCurvePrimitive h of Some parent \<Rightarrow> Some parent | None \<Rightarrow> api_curve h)"

definition apiStartCurvePrimitive ::
  "appendPlaneIntersectionStrokeHandler \<Rightarrow> curvePrimitive option \<Rightarrow> appendPlaneIntersectionStrokeHandler" where
  "apiStartCurvePrimitive h c =
     h\<lparr> api_curve := c, api_fractionA := 0, api_numThisCurve := 0, api_functionA := 0 \<rparr>"

definition newAppendPlaneIntersectionStrokeHandler ::
  "planeAltitudeEvaluator \<Rightarrow> curveLocationDetail list \<Rightarrow> appendPlaneIntersectionStrokeHandler" where
  "newAppendPlaneIntersectionStrokeHandler plane intersections =
     apiStartCurvePrimitive
       \<lparr> api_parentCurvePrimitive = None, api_curve = None, api_plane = plane,
         api_intersections = intersections,
         api_fractionA = 0, api_functionA = 0, api_functionB = 0, api_fractionB = 0,
         api_derivativeB = 0, api_numThisCurve = 0 \<rparr> None"

definition apiAnnounceSolutionFraction ::
  "appendPlaneIntersectionStrokeHandler \<Rightarrow> real \<Rightarrow> appendPlaneIntersectionStrokeHandler" where
  "apiAnnounceSolutionFraction h f =
     (case effectiveCurve h of
        Some c \<Rightarrow>
          h\<lparr> api_intersections := api_intersections h @
                [createCurveFractionPoint c f (origin (fractionToPointAndDerivative c f))] \<rparr>
      | None \<Rightarrow> h)"

definition apiEvaluate :: "appendPlaneIntersectionStrokeHandler \<Rightarrow> real \<Rightarrow> real option" where
  "apiEvaluate h f =
     (case effectiveCurve h of
        None \<Rightarrow> None
      | Some c \<Rightarrow> Some (altitude (api_plane h) (fractionToPoint c f)))"

definition apiAnnounceSegmentInterval ::
  "newton \<Rightarrow> solveCoffs \<Rightarrow> appendPlaneIntersectionStrokeHandler \<Rightarrow> point3d \<Rightarrow> point3d \<Rightarrow> real \<Rightarrow> real
     \<Rightarrow> appendPlaneIntersectionStrokeHandler" where
  "apiAnnounceSegmentInterval N S h point0 point1 fraction0 fraction1 =
     (let h0 = altitude (api_plane h) point0;
          h1 = altitude (api_plane h) point1
      in if h0 * h1 > 0 then h
         else (case S h0 h1 of
                 None \<Rightarrow> h
               | Some fraction01 \<Rightarrow>
                   (case N (apiEvaluate h) (interpolate fraction0 fraction01 fraction1) of
                      Some x \<Rightarrow> apiAnnounceSolutionFraction h x
                    | None \<Rightarrow> h)))"

definition apiSearchInterval ::
  "newton \<Rightarrow> appendPlaneIntersectionStrokeHandler \<Rightarrow> appendPlaneIntersectionStrokeHandler" where
  "apiSearchInterval N h =
     (if api_functionA h * api_functionB h > 0 then h
      else
        (let h1 = (if api_functionA h = 0 then apiAnnounceSolutionFraction h (api_fractionA h) else h);
             h2 = (if api_functionB h1 = 0 then apiAnnounceSolutionFraction h1 (api_fractionB h1) else h1)
         in if api_functionA h2 * api_functionB h2 < 0 then
              (case inverseInterpolate (api_fractionA h2) (api_functionA h2)
                                      (api_fractionB h2) (api_functionB h2) of
                 None \<Rightarrow> h2
               | Some f \<Rightarrow>
                   if f = 0 then h2
                   else (case N (apiEvaluate h2) f of
                           Some x \<Rightarrow> apiAnnounceSolutionFraction h2 x
                         | None \<Rightarrow> h2))
            else h2))"

definition apiAnnouncePointTangent ::
  "newton \<Rightarrow> appendPlaneIntersectionStrokeHandler \<Rightarrow> point3d \<Rightarrow> real \<Rightarrow> vector3d
     \<Rightarrow> appendPlaneIntersectionStrokeHandler" where
  "apiAnnouncePointTangent N h xyz f tangent =
     (let h1 = h\<lparr> api_functionB := altitude (api_plane h) xyz,
                  api_derivativeB := velocity (api_plane h) tangent,
                  api_fractionB := f \<rparr>;
          h2 = h1\<lparr> api_numThisCurve := api_numThisCurve h1 + 1 \<rparr>;
          h3 = (if api_numThisCurve h1 > 0 then apiSearchInterval N h2 else h2)
      in h3\<lparr> api_functionA := api_functionB h3, api_fractionA := api_fractionB h3 \<rparr>)"

definition apiAnnounceIntervalForUniformStepStrokes ::
  "newton \<Rightarrow> appendPlaneIntersectionStrokeHandler \<Rightarrow> curvePrimitive \<Rightarrow> int \<Rightarrow> real \<Rightarrow> real
     \<Rightarrow> appendPlaneIntersectionStrokeHandler" where
  "apiAnnounceIntervalForUniformStepStrokes N h cp numStrokes fraction0 fraction1 =
     (let h1 = apiStartCurvePrimitive h (Some cp);
          n = (if numStrokes < 1 then 1 else numStrokes);
          df = 1 / real_of_int n
      in fold (\<lambda>i hh. let f = interpolate fraction0 (real_of_int i * df) fraction1;
                           ray = fractionToPointAndDerivative cp f
                       in apiAnnouncePointTangent N hh (origin ray) f (direction ray))
              [0..n] h1)"

fun apiHandle ::
  "newton \<Rightarrow> solveCoffs \<Rightarrow> strokeCall \<Rightarrow> appendPlaneIntersectionStrokeHandler
     \<Rightarrow> appendPlaneIntersectionStrokeHandler" where
  "apiHandle N S (StartCurvePrimitive c) h = apiStartCurvePrimitive h c"
| "apiHandle N S EndCurvePrimitive h = h"
| "apiHandle N S (StartParentCurvePrimitive c) h = h\<lparr> api_parentCurvePrimitive := c \<rparr>"
| "apiHandle N S (EndParentCurvePrimitive c) h = h\<lparr> api_parentCurvePrimitive := None \<rparr>"
| "apiHandle N S (AnnounceIntervalForUniformStepStrokes cp numStrokes fraction0 fraction1) h =
     apiAnnounceIntervalForUniformStepStrokes N h cp numStrokes fraction0 fraction1"
| "apiHandle N S (AnnounceSegmentInterval cp point0 point1 numStrokes fraction0 fraction1) h =
     apiAnnounceSegmentInterval N S h point0 point1 fraction0 fraction1"
| "apiHandle N S (AnnouncePointTangent xyz f tangent) h = apiAnnouncePointTangent N h xyz f tangent"

text \<open>
  \<open>appendPlaneIntersectionPoints\<close> mutates the caller's array and returns a number;
  the model returns the number together with the array after the call.
\<close>

definition appendPlaneIntersectionPoints ::
  "newton \<Rightarrow> solveCoffs \<Rightarrow> curvePrimitive \<Rightarrow> planeAltitudeEvaluator \<Rightarrow> curveLocationDetail list
     \<Rightarrow> int \<times> curveLocationDetail list" where
  "appendPlaneIntersectionPoints N S c plane result =
     (let n0 = int (length result);
          h = fold (apiHandle N S) (emitStrokableParts c)
                   (newAppendPlaneIntersectionStrokeHandler plane result)
      in (int (length (api_intersections h)) - n0, api_intersections h))"

section \<open>Sample curves\<close>

text \<open>
  Concrete inputs on which the definitions are run. \<open>midpointRule\<close> is a quadrature
  with one point per interval, \<open>orderTaggedRule\<close> one whose weight is multiplied by
  the order of the set-up function it is asked for (so that a result shows which order
  was used), and \<open>noNewton\<close> a root finder that never converges;
  the sample curves announce exact segments or point-tangent samples only, so the
  quadrature and the root finder change no result of their emissions. A curve announces itself to the handler; in the model the
  announced curve carries the same evaluation methods and an empty emission, since
  the handlers only evaluate it.

  \<open>sampleLine\<close> is the straight segment from (0,0,0) to (2,0,0), as
  \<open>LineSegment3d\<close> announces itself, with the proportional scale 2.
  \<open>samplePolyline\<close> has no proportional scale: it runs from (0,0,0) to (1,0,0) over
  the fractions 0 to 1/2 and on to (3,0,0) over 1/2 to 1. \<open>sampleTwoPoint\<close> is the
  unit segment along x announced only as the point-tangent samples of its two ends.
\<close>

definition midpointRule :: quadrature where
  "midpointRule m x0 x1 = [((x0 + x1) / 2, x1 - x0)]"

definition orderTaggedRule :: quadrature where
  "orderTaggedRule m x0 x1 = [((x0 + x1) / 2, real (gaussOrder m) * (x1 - x0))]"

definition noNewton :: newton where
  "noNewton ev x0 = None"

definition sampleLineSelf :: curvePrimitive where
  "sampleLineSelf =
     CurvePrimitive (\<lambda>f. Point3d (2 * f) 0 0)
       (\<lambda>f. \<lparr> origin = Point3d (2 * f) 0 0, direction = Vector3d 2 0 0 \<rparr>) (Some 2) []"

definition sampleLine :: curvePrimitive where
  "sampleLine =
     CurvePrimitive (\<lambda>f. Point3d (2 * f) 0 0)
       (\<lambda>f. \<lparr> origin = Point3d (2 * f) 0 0, direction = Vector3d 2 0 0 \<rparr>) (Some 2)
       [StartCurvePrimitive (Some sampleLineSelf),
        AnnounceSegmentInterval sampleLineSelf (Point3d 0 0 0) (Point3d 2 0 0) 1 0 1,
        EndCurvePrimitive]"

definition samplePolylineSelf :: curvePrimitive where
  "samplePolylineSelf =
     CurvePrimitive (\<lambda>f. if f \<le> 1 / 2 then Point3d (2 * f) 0 0 else Point3d (4 * f - 1) 0 0)
       (\<lambda>f. if f \<le> 1 / 2 then \<lparr> origin = Point3d (2 * f) 0 0, direction = Vector3d 2 0 0 \<rparr>
            else \<lparr> origin = Point3d (4 * f - 1) 0 0, direction = Vector3d 4 0 0 \<rparr>) None []"

definition samplePolyline :: curvePrimitive where
  "samplePolyline =
     CurvePrimitive (\<lambda>f. if f \<le> 1 / 2 then Point3d (2 * f) 0 0 else Point3d (4 * f - 1) 0 0)
       (\<lambda>f. if f \<le> 1 / 2 then \<lparr> origin = Point3d (2 * f) 0 0, direction = Vector3d 2 0 0 \<rparr>
            else \<lparr> origin = Point3d (4 * f - 1) 0 0, direction = Vector3d 4 0 0 \<rparr>) None
       [StartCurvePrimitive (Some samplePolylineSelf),
        AnnounceSegmentInterval samplePolylineSelf (Point3d 0 0 0) (Point3d 1 0 0) 1 0 (1 / 2),
        AnnounceSegmentInterval samplePolylineSelf (Point3d 1 0 0) (Point3d 3 0 0) 1 (1 / 2) 1,
        EndCurvePrimitive]"

definition sampleTwoPointSelf :: curvePrimitive where
  "sampleTwoPointSelf =
     CurvePrimitive (\<lambda>f. Point3d f 0 0)
       (\<lambda>f. \<lparr> origin = Point3d f 0 0, direction = Vector3d 1 0 0 \<rparr>) None []"

definition sampleTwoPoint :: curvePrimitive where
  "sampleTwoPoint =
     CurvePrimitive (\<lambda>f. Point3d f 0 0)
       (\<lambda>f. \<lparr> origin = Point3d f 0 0, direction = Vector3d 1 0 0 \<rparr>) None
       [StartCurvePrimitive (Some sampleTwoPointSelf),
        AnnouncePointTangent (Point3d 0 0 0) 0 (Vector3d 1 0 0),
        AnnouncePointTangent (Point3d 1 0 0) 1 (Vector3d 1 0 0),
        EndCurvePrimitive]"

text \<open>
  \<open>samplePlane\<close> is the plane x = 1 with its normal along x, and \<open>noSolveCoffs\<close>
  a segment solver that finds no root.
\<close>

definition samplePlane :: planeAltitudeEvaluator where
  "samplePlane = \<lparr> altitude = (\<lambda>p. px p - 1), velocity = (\<lambda>v. vx v) \<rparr>"

definition noSolveCoffs :: solveCoffs where
  "noSolveCoffs h0 h1 = None"

section \<open>The quadrature order of the length integrator\<close>

lemma selectGaussMapper_of_int:
  "selectGaussMapper (of_int k) =
     (if k < 1 \<or> 5 < k then SetupGauss5
      else if k = 1 then SetupGauss1 else if k = 2 then SetupGauss2
      else if k = 3 then SetupGauss3 else if k = 4 then SetupGauss4 else SetupGauss5)"
  by (auto simp: selectGaussMapper_def Let_def)

lemma gaussOrder_select_of_int:
  "gaussOrder (selectGaussMapper (of_int k)) = (if k < 1 \<or> 5 < k then 5 else nat k)"
  by (auto simp: selectGaussMapper_of_int)

lemma gaussOrder_inj: "gaussOrder m = gaussOrder m' \<Longrightarrow> m = m'"
  by (cases m; cases m') simp_all

lemma fold_lengthGaussStep:
  "fold (lengthGaussStep cp) xws ctx =
     ctx\<lparr> len_summedLength := len_summedLength ctx
            + sum_list (map (\<lambda>xw. snd xw * tangentMagnitude cp (fst xw)) xws) \<rparr>"
  by (induction xws arbitrary: ctx) (simp_all add: lengthGaussStep_def)

lemma lengthStrokeStep_sum:
  "lengthStrokeStep Q cp n lo hi i ctx =
     ctx\<lparr> len_summedLength := len_summedLength ctx
            + sum_list (map (\<lambda>xw. snd xw * tangentMagnitude cp (fst xw))
                (Q (len_gaussMapper ctx)
                   (interpolate lo (real_of_int (i - 1) / real_of_int n) hi)
                   (if i = n then hi else interpolate lo (real_of_int i / real_of_int n) hi))) \<rparr>"
  by (simp add: lengthStrokeStep_def Let_def fold_lengthGaussStep)

lemma fold_lengthStrokeStep:
  "fold (lengthStrokeStep Q cp n lo hi) is ctx =
     ctx\<lparr> len_summedLength := len_summedLength ctx
            + sum_list (map (\<lambda>i. sum_list (map (\<lambda>xw. snd xw * tangentMagnitude cp (fst xw))
                (Q (len_gaussMapper ctx)
                   (interpolate lo (real_of_int (i - 1) / real_of_int n) hi)
                   (if i = n then hi else interpolate lo (real_of_int i / real_of_int n) hi)))) is) \<rparr>"
proof (induction "is" arbitrary: ctx)
  case Nil
  show ?case by simp
next
  case (Cons i "is")
  define ctx' where "ctx' = lengthStrokeStep Q cp n lo hi i ctx"
  have m: "len_gaussMapper ctx' = len_gaussMapper ctx"
    by (simp add: ctx'_def lengthStrokeStep_sum)
  have "fold (lengthStrokeStep Q cp n lo hi) (i # is) ctx =
        fold (lengthStrokeStep Q cp n lo hi) is ctx'"
    by (simp only: fold_simps ctx'_def)
  also note Cons.IH [of ctx']
  finally show ?case
    by (simp add: m) (simp add: ctx'_def lengthStrokeStep_sum add.assoc)
qed

lemma fixed_quadrature_sum:
  "curveLengthWithFixedIntervalCountQuadrature Q c f0 f1 n x =
     \<bar>if min f0 f1 < max f0 f1 then
        sum_list (map (\<lambda>i. sum_list (map (\<lambda>xw. snd xw * tangentMagnitude c (fst xw))
           (Q (selectGaussMapper x)
              (interpolate (min f0 f1) (real_of_int (i - 1) / real_of_int (max 1 n)) (max f0 f1))
              (if i = max 1 n then max f0 f1
               else interpolate (min f0 f1) (real_of_int i / real_of_int (max 1 n)) (max f0 f1)))))
           [1..max 1 n])
      else 0\<bar>"
proof -
  define lo where "lo = min f0 f1"
  define hi where "hi = max f0 f1"
  have swap: "(if f0 > f1 then f1 else f0) = lo" "(if f0 > f1 then f0 else f1) = hi"
    by (auto simp: lo_def hi_def)
  have le: "lo \<le> hi" by (simp add: lo_def hi_def)
  have n1: "(if n < 1 then 1 else n) = max 1 n" by simp
  have ctx: "newCurveLengthContext lo hi x =
     \<lparr> len_curve = None, len_summedLength = 0, len_fraction0 = lo, len_fraction1 = hi,
       len_gaussMapper = selectGaussMapper x \<rparr>"
    using le by (auto simp: newCurveLengthContext_def)
  show ?thesis
    unfolding curveLengthWithFixedIntervalCountQuadrature_def Let_def swap
      lengthAnnounceIntervalForUniformStepStrokes_def n1 ctx lo_def [symmetric] hi_def [symmetric]
    by (simp add: getSum_def fold_lengthStrokeStep)
qed

lemma sampleLine_speed: "tangentMagnitude sampleLine f = 2"
  by (simp add: tangentMagnitude_def sampleLine_def magnitude_def)

text \<open>
  Claim C10. The length integrator uses only the quadrature orders 1 to 5. For a
  requested count \<open>k\<close> the context holds the set-up function of order 5 when \<open>k\<close>
  is less than 1 or greater than 5, and of order \<open>k\<close> otherwise; and
  \<open>curveLengthWithFixedIntervalCountQuadrature\<close> returns the absolute value of the
  sum, over the uniform steps of the ordered interval, of the weighted tangent
  magnitudes at the points that this set-up function, and no other, gives for the step.
\<close>

theorem gauss_order_between_1_and_5:
  assumes "gaussOrder m = (if k < 1 \<or> 5 < k then 5 else nat k)"
  shows "gaussOrder (len_gaussMapper (newCurveLengthContext f0 f1 (of_int k))) =
           (if k < 1 \<or> 5 < k then 5 else nat k)
         \<and> len_gaussMapper (newCurveLengthContext f0 f1 (of_int k)) = m
         \<and> curveLengthWithFixedIntervalCountQuadrature Q c f0 f1 n (of_int k) =
             \<bar>if min f0 f1 < max f0 f1 then
                sum_list (map (\<lambda>i. sum_list (map (\<lambda>xw. snd xw * tangentMagnitude c (fst xw))
                   (Q m
                      (interpolate (min f0 f1) (real_of_int (i - 1) / real_of_int (max 1 n)) (max f0 f1))
                      (if i = max 1 n then max f0 f1
                       else interpolate (min f0 f1) (real_of_int i / real_of_int (max 1 n)) (max f0 f1)))))
                   [1..max 1 n])
              else 0\<bar>"
proof -
  have sel: "selectGaussMapper (of_int k) = m"
    by (rule gaussOrder_inj) (simp only: gaussOrder_select_of_int assms)
  have ctx: "len_gaussMapper (newCurveLengthContext f0 f1 (of_int k)) = selectGaussMapper (of_int k)"
    by (simp add: newCurveLengthContext_def)
  show ?thesis
    unfolding ctx fixed_quadrature_sum sel using assms by simp
qed

theorem gauss_order_between_1_and_5_witness:
  "curveLengthWithFixedIntervalCountQuadrature orderTaggedRule sampleLine 0 1 1 (of_int 7) = 10
   \<and> curveLengthWithFixedIntervalCountQuadrature orderTaggedRule sampleLine 0 1 1 (of_int 3) = 6
   \<and> curveLengthWithFixedIntervalCountQuadrature orderTaggedRule sampleLine 1 0 2 (of_int 0) = 10
   \<and> gaussOrder (len_gaussMapper (newCurveLengthContext 0 1 (of_int 7))) = 5
   \<and> gaussOrder (len_gaussMapper (newCurveLengthContext 0 1 (of_int 3))) = 3"
proof -
  have a: "gaussOrder SetupGauss5 = (if (7::int) < 1 \<or> 5 < (7::int) then 5 else nat 7)" by simp
  have b: "gaussOrder SetupGauss3 = (if (3::int) < 1 \<or> 5 < (3::int) then 5 else nat 3)" by simp
  have c: "gaussOrder SetupGauss5 = (if (0::int) < 1 \<or> 5 < (0::int) then 5 else nat 0)" by simp
  have one: "[1..(1::int)] = [1]" by (simp add: upto.simps)
  have two: "[1..(2::int)] = [1, 2]" by (simp add: upto.simps)
  from gauss_order_between_1_and_5 [OF a, of 0 1 orderTaggedRule sampleLine 1]
       gauss_order_between_1_and_5 [OF b, of 0 1 orderTaggedRule sampleLine 1]
       gauss_order_between_1_and_5 [OF c, of 1 0 orderTaggedRule sampleLine 2]
  show ?thesis
    by (simp add: one two orderTaggedRule_def sampleLine_speed interpolate_def)
qed

section \<open>Lengths between fractions\<close>

lemma newCurveLengthContext_commute:
  "newCurveLengthContext f0 f1 n = newCurveLengthContext f1 f0 n"
  by (simp add: newCurveLengthContext_def)

lemma samplePolyline_length:
  "curveLengthBetweenFractions Q samplePolyline (1 / 4) 1 = 5 / 2"
  by (simp add: curveLengthBetweenFractions_def samplePolyline_def getSum_def
        newCurveLengthContext_def lengthAnnounceSegmentInterval_def distance_def Let_def)

lemma sampleLine_length: "curveLength Q sampleLine = 2"
  by (simp add: curveLength_def sampleLine_def getSum_def newCurveLengthContext_def
        lengthAnnounceSegmentInterval_def distance_def)

text \<open>
  Claim C7. For every curve and all fractions \<open>f0\<close>, \<open>f1\<close>,
  \<open>curveLengthBetweenFractions(f0, f1)\<close> equals
  \<open>curveLengthBetweenFractions(f1, f0)\<close> and is not negative, on the proportional
  path and on the stroke-integration path alike (the context orders the two ends of
  the interval, and the absolute value of the sum is returned).
\<close>

theorem length_between_fractions_symmetric:
  "curveLengthBetweenFractions Q c f0 f1 = curveLengthBetweenFractions Q c f1 f0
   \<and> 0 \<le> curveLengthBetweenFractions Q c f0 f1"
proof (cases "f0 = f1")
  case True
  then show ?thesis by (simp add: curveLengthBetweenFractions_def)
next
  case False
  have ctx: "newCurveLengthContext f0 f1 5 = newCurveLengthContext f1 f0 5"
    by (rule newCurveLengthContext_commute)
  have flip: "\<bar>(f1 - f0) * L\<bar> = \<bar>(f0 - f1) * L\<bar>" for L :: real
    by (simp add: abs_mult abs_minus_commute)
  from False show ?thesis
    by (cases "getFractionToDistanceScale c") (auto simp: curveLengthBetweenFractions_def ctx flip)
qed

theorem length_between_fractions_symmetric_witness:
  "curveLengthBetweenFractions midpointRule samplePolyline 1 (1 / 4) = 5 / 2
   \<and> 0 \<le> curveLengthBetweenFractions midpointRule samplePolyline (1 / 4) 1"
  using length_between_fractions_symmetric [of midpointRule samplePolyline "1 / 4" 1]
  by (simp add: samplePolyline_length)

text \<open>
  Claim C5, as stated, fails: for a curve with a proportional scale the length between
  two fractions is not scale times total length times \<open>|f1 - f0|\<close>. The segment from
  (0,0,0) to (2,0,0) has scale 2 and length 2, and its length between the fractions 0
  and 1 is 2, not 2 times 2.
\<close>

theorem proportional_length_uses_scale_counterexample:
  "getFractionToDistanceScale sampleLine = Some 2
   \<and> curveLengthBetweenFractions midpointRule sampleLine 0 1
       \<noteq> 2 * curveLength midpointRule sampleLine * \<bar>1 - 0\<bar>"
proof -
  have s: "getFractionToDistanceScale sampleLine = Some 2"
    by (simp add: sampleLine_def)
  have "curveLengthBetweenFractions midpointRule sampleLine 0 1 = 2"
    by (simp add: curveLengthBetweenFractions_def s sampleLine_length)
  with s show ?thesis by (simp add: sampleLine_length)
qed

text \<open>
  Claim C5, amended. For every curve whose \<open>getFractionToDistanceScale()\<close> is defined,
  and all fractions \<open>f0\<close>, \<open>f1\<close>, \<open>curveLengthBetweenFractions(f0, f1)\<close> is the
  absolute value of \<open>(f1 - f0)\<close> times \<open>curveLength()\<close>: the scale decides that the
  proportional path is taken and is not a factor of the result. \<open>f0\<close> may exceed
  \<open>f1\<close>, and equal fractions give 0.
\<close>

theorem proportional_length_between_fractions:
  assumes "getFractionToDistanceScale c = Some s"
  shows "curveLengthBetweenFractions Q c f0 f1 = \<bar>(f1 - f0) * curveLength Q c\<bar>
         \<and> curveLengthBetweenFractions Q c f0 f1 = \<bar>f1 - f0\<bar> * \<bar>curveLength Q c\<bar>
         \<and> curveLengthBetweenFractions Q c f0 f0 = 0"
  using assms by (simp add: curveLengthBetweenFractions_def abs_mult)

theorem proportional_length_between_fractions_witness:
  "getFractionToDistanceScale sampleLine = Some 2
   \<and> curveLengthBetweenFractions midpointRule sampleLine 1 (1 / 4) = 3 / 2"
proof -
  have s: "getFractionToDistanceScale sampleLine = Some 2"
    by (simp add: sampleLine_def)
  from proportional_length_between_fractions [OF s, of midpointRule 1 "1 / 4"] s
  show ?thesis by (simp add: sampleLine_length)
qed

section \<open>The closest-point search\<close>

text \<open>
  Claim C1 says that \<open>closestPoint\<close> always returns a defined detail for a curve that
  announces at least its two endpoints, and the nearer endpoint when only the two
  endpoint samples are announced. The code does not: \<open>announceRay\<close> announces a
  candidate only where the function changes sign or is zero between two samples. For
  the unit segment along x announced as its two endpoint samples and the space point
  (2,0,0) beyond its end, the function is 2 at the start and 1 at the end, no candidate
  is announced, and \<open>closestPoint\<close> returns \<open>undefined\<close>, whatever the root finder
  and the value of \<open>extend\<close>.
\<close>

theorem closestPoint_two_endpoint_samples_undefined:
  "closestPoint N sampleTwoPoint (Point3d 2 0 0) e = None"
  by (simp add: closestPoint_def sampleTwoPoint_def newClosestPointStrokeHandler_def
        cpsStartCurvePrimitive_def announceRay_def cpsSearchInterval_def dotProductToPoint_def
        claimResult_def Let_def)

lemma announceCandidate_spacePoint:
  "cps_spacePoint (announceCandidate h cp f p) = cps_spacePoint h"
  by (simp add: announceCandidate_def Let_def split: option.split)

lemma announceCandidate_first:
  "cps_closestPoint h = None \<Longrightarrow>
   \<exists>best. cps_closestPoint (announceCandidate h cp f p) = Some best
     \<and> fraction best = f \<and> point best = p \<and> a_distance best = distance (cps_spacePoint h) p"
  by (simp add: announceCandidate_def Let_def createCurveFractionPoint_def)

lemma announceCandidate_farther:
  "cps_closestPoint h = Some best \<Longrightarrow> distance (cps_spacePoint h) p > a_distance best \<Longrightarrow>
   cps_closestPoint (announceCandidate h cp f p) = Some best"
  by (simp add: announceCandidate_def Let_def)

lemma announceCandidate_not_farther:
  "cps_closestPoint h = Some best \<Longrightarrow> distance (cps_spacePoint h) p \<le> a_distance best \<Longrightarrow>
   \<exists>best'. cps_closestPoint (announceCandidate h cp f p) = Some best'
     \<and> fraction best' = f \<and> point best' = p \<and> a_distance best' = distance (cps_spacePoint h) p"
  by (simp add: announceCandidate_def Let_def createCurveFractionPoint_def)

text \<open>
  Claim C6, as stated, fails: a later candidate whose distance exactly ties the
  current best is not dropped, it replaces the first-found candidate. With the space
  point at the origin, the candidate (1,0,0) at fraction 1/4 and then the candidate
  (-1,0,0) at fraction 3/4, both at distance 1, the running best ends at fraction 3/4.
\<close>

theorem tie_keeps_first_counterexample:
  "distance (Point3d 0 0 0) (Point3d 1 0 0) = distance (Point3d 0 0 0) (Point3d (- 1) 0 0)
   \<and> map_option fraction (cps_closestPoint
        (announceCandidate
           (announceCandidate (newClosestPointStrokeHandler (Point3d 0 0 0) False)
              sampleLineSelf (1 / 4) (Point3d 1 0 0))
           sampleLineSelf (3 / 4) (Point3d (- 1) 0 0))) = Some (3 / 4)"
  by (simp add: announceCandidate_def newClosestPointStrokeHandler_def cpsStartCurvePrimitive_def
        createCurveFractionPoint_def distance_def Let_def)

text \<open>
  Claim C6, amended. Throughout a closest-point search the running best candidate is
  kept only against a candidate whose distance to the space point is strictly larger;
  a candidate at a smaller or an equal distance replaces it. After any non-empty
  sequence of announced candidates the running best has the least distance of the
  sequence, and among the candidates at that least distance it is the one found last.
\<close>

theorem best_candidate_is_last_nearest:
  assumes "cs \<noteq> []" and "cps_closestPoint h = None"
  shows "\<exists>best. cps_closestPoint
                  (fold (\<lambda>c hh. announceCandidate hh (fst c) (fst (snd c)) (snd (snd c))) cs h)
                = Some best
           \<and> a_distance best = Min ((\<lambda>c. distance (cps_spacePoint h) (snd (snd c))) ` set cs)
           \<and> (fraction best, point best) =
               snd (last (filter (\<lambda>c. distance (cps_spacePoint h) (snd (snd c))
                                 = Min ((\<lambda>c. distance (cps_spacePoint h) (snd (snd c))) ` set cs)) cs))"
  using assms
proof (induction cs rule: rev_induct)
  case Nil
  then show ?case by simp
next
  case (snoc c cs)
  define sp where "sp = cps_spacePoint h"
  define d where "d = (\<lambda>c :: curvePrimitive \<times> real \<times> point3d. distance sp (snd (snd c)))"
  define run where
    "run = (\<lambda>xs. fold (\<lambda>c hh. announceCandidate hh (fst c) (fst (snd c)) (snd (snd c))) xs h)"
  have sp_run: "cps_spacePoint (run xs) = sp" for xs
    unfolding run_def sp_def
    by (induction xs arbitrary: h) (auto simp: announceCandidate_spacePoint)
  have step: "run (cs @ [c]) = announceCandidate (run cs) (fst c) (fst (snd c)) (snd (snd c))"
    by (simp add: run_def)
  have dc: "d c = distance sp (snd (snd c))" by (simp add: d_def)
  have goal: "?case \<longleftrightarrow>
     (\<exists>best. cps_closestPoint (run (cs @ [c])) = Some best
        \<and> a_distance best = Min (d ` set (cs @ [c]))
        \<and> (fraction best, point best) =
            snd (last (filter (\<lambda>x. d x = Min (d ` set (cs @ [c]))) (cs @ [c]))))"
    unfolding run_def d_def sp_def by (rule refl)
  show ?case
  proof (cases "cs = []")
    case True
    then have "run cs = h" by (simp add: run_def)
    with announceCandidate_first [OF snoc.prems(2), of "fst c" "fst (snd c)" "snd (snd c)"] step True
    show ?thesis
      unfolding goal by (auto simp: dc sp_def)
  next
    case False
    have ih: "\<exists>best. cps_closestPoint (run cs) = Some best
        \<and> a_distance best = Min (d ` set cs)
        \<and> (fraction best, point best) = snd (last (filter (\<lambda>x. d x = Min (d ` set cs)) cs))"
      using snoc.IH [OF False snoc.prems(2)] unfolding run_def d_def sp_def .
    then obtain best where best: "cps_closestPoint (run cs) = Some best"
      and amin: "a_distance best = Min (d ` set cs)"
      and blast: "(fraction best, point best) = snd (last (filter (\<lambda>x. d x = Min (d ` set cs)) cs))"
      by blast
    have fin: "finite (d ` set cs)" and ne: "d ` set cs \<noteq> {}" using False by auto
    have min_snoc: "Min (d ` set (cs @ [c])) = min (d c) (Min (d ` set cs))"
      using fin ne by simp
    show ?thesis
    proof (cases "d c > Min (d ` set cs)")
      case True
      then have m: "Min (d ` set (cs @ [c])) = Min (d ` set cs)"
        unfolding min_snoc by simp
      from True have keep: "cps_closestPoint (run (cs @ [c])) = Some best"
        unfolding step using announceCandidate_farther [OF best, of "snd (snd c)" "fst c" "fst (snd c)"]
        by (simp add: sp_run amin dc)
      from True have "filter (\<lambda>x. d x = Min (d ` set cs)) (cs @ [c])
                      = filter (\<lambda>x. d x = Min (d ` set cs)) cs"
        by simp
      with keep amin blast show ?thesis
        unfolding goal m by simp
    next
      case False
      then have le: "d c \<le> Min (d ` set cs)" by simp
      then have m: "Min (d ` set (cs @ [c])) = d c"
        unfolding min_snoc by simp
      from announceCandidate_not_farther [OF best, of "snd (snd c)" "fst c" "fst (snd c)"] le
      obtain best' where b': "cps_closestPoint (run (cs @ [c])) = Some best'"
        and fb: "fraction best' = fst (snd c)" and pb: "point best' = snd (snd c)"
        and ab: "a_distance best' = d c"
        unfolding step by (auto simp: sp_run amin dc)
      have "last (filter (\<lambda>x. d x = d c) (cs @ [c])) = c"
        by simp
      with b' fb pb ab show ?thesis
        unfolding goal m by simp
    qed
  qed
qed

theorem best_candidate_is_last_nearest_witness:
  "map_option (\<lambda>b. (fraction b, point b, a_distance b))
     (cps_closestPoint
        (fold (\<lambda>c hh. announceCandidate hh (fst c) (fst (snd c)) (snd (snd c)))
           [(sampleLineSelf, 1 / 4, Point3d 1 0 0), (sampleLineSelf, 1 / 2, Point3d 2 0 0),
            (sampleLineSelf, 3 / 4, Point3d (- 1) 0 0)]
           (newClosestPointStrokeHandler (Point3d 0 0 0) False)))
   = Some (3 / 4, Point3d (- 1) 0 0, 1)"
proof -
  have none: "cps_closestPoint (newClosestPointStrokeHandler (Point3d 0 0 0) False) = None"
    by (simp add: newClosestPointStrokeHandler_def cpsStartCurvePrimitive_def)
  have sp: "cps_spacePoint (newClosestPointStrokeHandler (Point3d 0 0 0) False) = Point3d 0 0 0"
    by (simp add: newClosestPointStrokeHandler_def cpsStartCurvePrimitive_def)
  have ne: "[(sampleLineSelf, 1 / 4 :: real, Point3d 1 0 0), (sampleLineSelf, 1 / 2, Point3d 2 0 0),
            (sampleLineSelf, 3 / 4, Point3d (- 1) 0 0)] \<noteq> []" by simp
  from best_candidate_is_last_nearest [OF ne none]
  show ?thesis
    by (auto simp: sp distance_def)
qed

text \<open>
  Claim C8. For an announced exact segment the candidate is the point of the chord at
  the clamped projection fraction. When \<open>extend\<close> is false the projection fraction
  is clamped to [0,1]; when \<open>extend\<close> is true it is clamped from below unless the
  segment begins at curve fraction 0 and from above unless it ends at curve fraction 1;
  so without \<open>extend\<close>, and on a segment interior to the curve, the fraction used
  lies in [0,1].
\<close>

theorem segment_projection_clamping:
  "cpsAnnounceSegmentInterval h cp point0 point1 fraction0 fraction1 =
     announceCandidate h cp
       (interpolate fraction0 (segmentLocalFraction h point0 point1 fraction0 fraction1) fraction1)
       (pointInterpolate point0 (segmentLocalFraction h point0 point1 fraction0 fraction1) point1)
   \<and> (\<not> cps_extend h \<longrightarrow>
        segmentLocalFraction h point0 point1 fraction0 fraction1 =
          max 0 (min 1 (fractionOfProjectionToLine (cps_spacePoint h) point0 point1 0)))
   \<and> (cps_extend h \<longrightarrow>
        segmentLocalFraction h point0 point1 fraction0 fraction1 =
          (let lf = fractionOfProjectionToLine (cps_spacePoint h) point0 point1 0;
               lower = (if fraction0 = 0 then lf else max lf 0)
           in if fraction1 = 1 then lower else min lower 1))
   \<and> (\<not> cps_extend h \<or> (fraction0 \<noteq> 0 \<and> fraction1 \<noteq> 1) \<longrightarrow>
        0 \<le> segmentLocalFraction h point0 point1 fraction0 fraction1
        \<and> segmentLocalFraction h point0 point1 fraction0 fraction1 \<le> 1)"
proof -
  let ?lf = "fractionOfProjectionToLine (cps_spacePoint h) point0 point1 0"
  let ?r = "segmentLocalFraction h point0 point1 fraction0 fraction1"
  have candidate: "cpsAnnounceSegmentInterval h cp point0 point1 fraction0 fraction1 =
      announceCandidate h cp (interpolate fraction0 ?r fraction1) (pointInterpolate point0 ?r point1)"
    by (simp add: cpsAnnounceSegmentInterval_def Let_def)
  have bounded: "?r = max 0 (min 1 ?lf)" if "\<not> cps_extend h"
    using that by (simp add: segmentLocalFraction_def clampToStartEnd_def Let_def max_def min_def)
  have extended: "?r = (let lf = ?lf; lower = (if fraction0 = 0 then lf else max lf 0)
                        in if fraction1 = 1 then lower else min lower 1)" if "cps_extend h"
    using that by (simp add: segmentLocalFraction_def Let_def)
  have inside: "0 \<le> ?r \<and> ?r \<le> 1" if "\<not> cps_extend h \<or> (fraction0 \<noteq> 0 \<and> fraction1 \<noteq> 1)"
  proof (cases "cps_extend h")
    case False
    then show ?thesis by (simp add: bounded)
  next
    case True
    with that have "fraction0 \<noteq> 0" and "fraction1 \<noteq> 1" by simp_all
    with True show ?thesis by (simp add: extended Let_def)
  qed
  from candidate bounded extended inside show ?thesis by blast
qed

theorem segment_projection_clamping_witness:
  "segmentLocalFraction (newClosestPointStrokeHandler (Point3d 5 0 0) True)
     (Point3d 0 0 0) (Point3d 2 0 0) (1 / 4) (1 / 2) = 1
   \<and> segmentLocalFraction (newClosestPointStrokeHandler (Point3d 5 0 0) True)
     (Point3d 0 0 0) (Point3d 2 0 0) (1 / 2) 1 = 5 / 2
   \<and> segmentLocalFraction (newClosestPointStrokeHandler (Point3d 5 0 0) False)
     (Point3d 0 0 0) (Point3d 2 0 0) (1 / 2) 1 = 1"
  using segment_projection_clamping [of "newClosestPointStrokeHandler (Point3d 5 0 0) True"
          sampleLineSelf "Point3d 0 0 0" "Point3d 2 0 0" "1 / 4" "1 / 2"]
        segment_projection_clamping [of "newClosestPointStrokeHandler (Point3d 5 0 0) True"
          sampleLineSelf "Point3d 0 0 0" "Point3d 2 0 0" "1 / 2" 1]
        segment_projection_clamping [of "newClosestPointStrokeHandler (Point3d 5 0 0) False"
          sampleLineSelf "Point3d 0 0 0" "Point3d 2 0 0" "1 / 2" 1]
  by (simp add: newClosestPointStrokeHandler_def cpsStartCurvePrimitive_def
        fractionOfProjectionToLine_def Let_def)

section \<open>The plane-intersection search\<close>

lemma api_solution_prefix:
  "prefix (api_intersections h) (api_intersections (apiAnnounceSolutionFraction h f))"
  by (simp add: apiAnnounceSolutionFraction_def split: option.split)

lemma api_search_prefix:
  "prefix (api_intersections h) (api_intersections (apiSearchInterval N h))"
proof -
  define h1 where
    "h1 = (if api_functionA h = 0 then apiAnnounceSolutionFraction h (api_fractionA h) else h)"
  define h2 where
    "h2 = (if api_functionB h1 = 0 then apiAnnounceSolutionFraction h1 (api_fractionB h1) else h1)"
  have p1: "prefix (api_intersections h) (api_intersections h1)"
    unfolding h1_def by (simp add: api_solution_prefix)
  have p2: "prefix (api_intersections h1) (api_intersections h2)"
    unfolding h2_def by (simp add: api_solution_prefix)
  have p12: "prefix (api_intersections h) (api_intersections h2)"
    using p1 p2 by (rule prefix_order.trans)
  have p3: "prefix (api_intersections h) (api_intersections (apiAnnounceSolutionFraction h2 x))" for x
    using p12 api_solution_prefix [of h2 x] by (rule prefix_order.trans)
  have eq: "apiSearchInterval N h =
     (if api_functionA h * api_functionB h > 0 then h
      else if api_functionA h2 * api_functionB h2 < 0 then
              (case inverseInterpolate (api_fractionA h2) (api_functionA h2)
                                      (api_fractionB h2) (api_functionB h2) of
                 None \<Rightarrow> h2
               | Some f \<Rightarrow>
                   if f = 0 then h2
                   else (case N (apiEvaluate h2) f of
                           Some x \<Rightarrow> apiAnnounceSolutionFraction h2 x
                         | None \<Rightarrow> h2))
            else h2)"
    unfolding apiSearchInterval_def Let_def h2_def h1_def by (rule refl)
  show ?thesis
    unfolding eq using p12 p3 by (simp split: option.split)
qed

lemma api_pointTangent_prefix:
  "prefix (api_intersections h) (api_intersections (apiAnnouncePointTangent N h xyz f tangent))"
proof -
  define h2 where
    "h2 = h\<lparr> api_functionB := altitude (api_plane h) xyz,
             api_derivativeB := velocity (api_plane h) tangent,
             api_fractionB := f,
             api_numThisCurve := api_numThisCurve h + 1 \<rparr>"
  define h3 where "h3 = (if api_numThisCurve h > 0 then apiSearchInterval N h2 else h2)"
  have i2: "api_intersections h2 = api_intersections h"
    by (simp add: h2_def)
  have "prefix (api_intersections h2) (api_intersections h3)"
    unfolding h3_def by (simp add: api_search_prefix)
  then have p: "prefix (api_intersections h) (api_intersections h3)"
    by (simp only: i2)
  have "apiAnnouncePointTangent N h xyz f tangent =
          h3\<lparr> api_functionA := api_functionB h3, api_fractionA := api_fractionB h3 \<rparr>"
    by (simp add: apiAnnouncePointTangent_def Let_def h3_def h2_def)
  with p show ?thesis by simp
qed

lemma fold_prefix:
  assumes "\<And>x h. prefix (api_intersections h) (api_intersections (g x h))"
  shows "prefix (api_intersections h) (api_intersections (fold g xs h))"
proof (induction xs arbitrary: h)
  case Nil
  show ?case by simp
next
  case (Cons x xs)
  have "prefix (api_intersections h) (api_intersections (g x h))" by (rule assms)
  also have "prefix \<dots> (api_intersections (fold g xs (g x h)))" by (rule Cons.IH)
  finally show ?case by simp
qed

lemma api_uniform_prefix:
  "prefix (api_intersections h)
     (api_intersections (apiAnnounceIntervalForUniformStepStrokes N h cp n f0 f1))"
proof -
  have "prefix (api_intersections (apiStartCurvePrimitive h (Some cp)))
     (api_intersections (apiAnnounceIntervalForUniformStepStrokes N h cp n f0 f1))"
    unfolding apiAnnounceIntervalForUniformStepStrokes_def Let_def
    by (rule fold_prefix) (rule api_pointTangent_prefix)
  then show ?thesis by (simp add: apiStartCurvePrimitive_def)
qed

lemma api_segment_prefix:
  "prefix (api_intersections h)
     (api_intersections (apiAnnounceSegmentInterval N S h point0 point1 f0 f1))"
  by (simp add: apiAnnounceSegmentInterval_def Let_def api_solution_prefix split: option.split)

lemma apiHandle_prefix:
  "prefix (api_intersections h) (api_intersections (apiHandle N S call h))"
  by (cases call)
     (simp_all add: apiStartCurvePrimitive_def api_uniform_prefix api_segment_prefix
        api_pointTangent_prefix)

text \<open>
  Claim C9. For every curve and plane, \<open>appendPlaneIntersectionPoints\<close> leaves the
  entries that the result array held before the call in place and unchanged, adds
  its records behind them, and returns the number of records it added.
\<close>

theorem plane_intersections_only_appended:
  "\<exists>added. snd (appendPlaneIntersectionPoints N S c plane result) = result @ added
           \<and> fst (appendPlaneIntersectionPoints N S c plane result) = int (length added)"
proof -
  let ?start = "newAppendPlaneIntersectionStrokeHandler plane result"
  let ?final = "fold (apiHandle N S) (emitStrokableParts c) ?start"
  have "prefix (api_intersections ?start) (api_intersections ?final)"
    by (rule fold_prefix) (rule apiHandle_prefix)
  moreover have "api_intersections ?start = result"
    by (simp add: newAppendPlaneIntersectionStrokeHandler_def apiStartCurvePrimitive_def)
  ultimately obtain added where "api_intersections ?final = result @ added"
    by (auto simp: prefix_def)
  then show ?thesis
    by (simp add: appendPlaneIntersectionPoints_def Let_def)
qed

lemma sampleTwoPoint_meets_samplePlane:
  "appendPlaneIntersectionPoints noNewton noSolveCoffs sampleTwoPoint samplePlane
     [createCurveFractionPoint sampleLineSelf 0 (Point3d 1 0 0)] =
   (1, [createCurveFractionPoint sampleLineSelf 0 (Point3d 1 0 0),
        createCurveFractionPoint sampleTwoPointSelf 1 (Point3d 1 0 0)])"
  by (simp add: appendPlaneIntersectionPoints_def sampleTwoPoint_def
        newAppendPlaneIntersectionStrokeHandler_def apiStartCurvePrimitive_def
        apiAnnouncePointTangent_def apiSearchInterval_def apiAnnounceSolutionFraction_def
        effectiveCurve_def samplePlane_def sampleTwoPointSelf_def Let_def)

theorem plane_intersections_only_appended_witness:
  "\<exists>added. snd (appendPlaneIntersectionPoints noNewton noSolveCoffs sampleTwoPoint samplePlane
                   [createCurveFractionPoint sampleLineSelf 0 (Point3d 1 0 0)])
             = [createCurveFractionPoint sampleLineSelf 0 (Point3d 1 0 0)] @ added
           \<and> length added = 1
           \<and> fst (appendPlaneIntersectionPoints noNewton noSolveCoffs sampleTwoPoint samplePlane
                   [createCurveFractionPoint sampleLineSelf 0 (Point3d 1 0 0)]) = 1"
proof -
  from plane_intersections_only_appended [of noNewton noSolveCoffs sampleTwoPoint samplePlane
     "[createCurveFractionPoint sampleLineSelf 0 (Point3d 1 0 0)]"]
  obtain added where
    "snd (appendPlaneIntersectionPoints noNewton noSolveCoffs sampleTwoPoint samplePlane
            [createCurveFractionPoint sampleLineSelf 0 (Point3d 1 0 0)])
       = [createCurveFractionPoint sampleLineSelf 0 (Point3d 1 0 0)] @ added"
    and "fst (appendPlaneIntersectionPoints noNewton noSolveCoffs sampleTwoPoint samplePlane
            [createCurveFractionPoint sampleLineSelf 0 (Point3d 1 0 0)]) = int (length added)"
    by blast
  then show ?thesis
    by (auto simp: sampleTwoPoint_meets_samplePlane)
qed

section \<open>Moving a signed distance from a fraction\<close>

lemma moveLoop_not_broken:
  "moveLoop Q c d dir tol n st = Some (False, st') \<Longrightarrow> numConverged st \<le> 1 \<Longrightarrow> numConverged st' \<le> 1"
proof (induction n arbitrary: st)
  case 0
  then show ?case by simp
next
  case (Suc n)
  then show ?case
    by (auto simp: Let_def split: if_splits)
qed

lemma samplePolyline_between:
  "curveLengthBetweenFractions Q samplePolyline f0 f1 =
     (if f0 = f1 then 0 else
      \<bar>(let lo = min f0 f1; hi = max f0 f1 in
        (if lo \<le> 0 \<and> 1/2 \<le> hi then 1 else
           if max 0 lo < min (1/2) hi then (min (1/2) hi - max 0 lo) * 2 else 0)
      + (if lo \<le> 1/2 \<and> 1 \<le> hi then 2 else
           if max (1/2) lo < min 1 hi then (min 1 hi - max (1/2) lo) * 4 else 0))\<bar>)"
  by (simp add: curveLengthBetweenFractions_def samplePolyline_def getSum_def
        newCurveLengthContext_def lengthAnnounceSegmentInterval_def distance_def Let_def min_def max_def)

lemma samplePolyline_speed:
  "tangentMagnitude samplePolyline f = (if f \<le> 1/2 then 2 else 4)"
  by (simp add: tangentMagnitude_def samplePolyline_def magnitude_def)

lemma samplePolyline_iterations:
  "\<exists>st. moveIterations midpointRule samplePolyline 0 4 True = Some (False, st)"
  by (simp add: moveIterations_def Let_def samplePolyline_between samplePolyline_speed interpolate_def eval_nat_numeral)

lemma samplePolyline_scale: "getFractionToDistanceScale samplePolyline = None"
  by (simp add: samplePolyline_def)

lemma samplePolyline_point: "fractionToPoint samplePolyline f = (if f \<le> 1 / 2 then Point3d (2 * f) 0 0 else Point3d (4 * f - 1) 0 0)"
  by (simp add: samplePolyline_def)

lemma sampleLine_scale: "getFractionToDistanceScale sampleLine = Some 2"
  by (simp add: sampleLine_def)

lemma sampleLine_point: "fractionToPoint sampleLine f = Point3d (2 * f) 0 0"
  by (simp add: sampleLine_def)

lemma moveLoop_zero_distance:
  assumes "0 < tol" and "tangentMagnitude c f \<noteq> 0" and "n \<noteq> 0"
  shows "moveLoop Q c 0 1 tol n \<lparr> fractionA = f, fractionB = f, distanceA = 0, numConverged = 0 \<rparr>
         = Some (True, \<lparr> fractionA = f, fractionB = f, distanceA = 0, numConverged = 100 \<rparr>)"
proof (cases n)
  case 0
  with assms show ?thesis by simp
next
  case (Suc m)
  with assms show ?thesis by (simp add: Let_def curveLengthBetweenFractions_def)
qed

lemma length_between_nonneg: "0 \<le> curveLengthBetweenFractions Q c f0 f1"
  by (cases "getFractionToDistanceScale c") (auto simp: curveLengthBetweenFractions_def)

text \<open>
  Claim C2. If the loop of \<open>moveSignedDistanceFromFractionGeneric\<close> completes its 10
  iterations without leaving through one of its two \<open>break\<close> statements (two
  consecutive distance errors under the tolerance, or two identical consecutive
  fraction estimates), the returned detail has the status \<open>error\<close>, the original
  \<open>startFraction\<close>, the point \<open>fractionToPoint(startFraction)\<close> and \<open>a = 0\<close>.
\<close>

theorem generic_move_error_after_10_iterations:
  assumes "moveIterations Q c startFraction signedDistance allowExtension = Some (False, st)"
  shows "moveSignedDistanceFromFractionGeneric Q c startFraction signedDistance allowExtension =
           Some \<lparr> curve = c, fraction = startFraction, point = fractionToPoint c startFraction,
                  a_distance = 0, curveSearchStatus = Some error \<rparr>"
proof -
  from assms have "numConverged st \<le> 1"
    by (auto simp: moveIterations_def Let_def split: if_splits dest!: moveLoop_not_broken)
  moreover from assms have
    "\<not> (curveLengthBetweenFractions Q c startFraction (if signedDistance > 0 then 1 else 0)
          < \<bar>signedDistance\<bar> \<and> \<not> allowExtension)"
    by (auto simp: moveIterations_def Let_def split: if_splits)
  moreover from assms have
    "curveLengthBetweenFractions Q c startFraction (if signedDistance > 0 then 1 else 0) \<noteq> 0"
    by (auto simp: moveIterations_def Let_def split: if_splits)
  ultimately show ?thesis
    using assms
    by (auto simp: moveSignedDistanceFromFractionGeneric_def Let_def createCurveEvaluatedFraction_def
          split: if_splits)
qed

theorem generic_move_error_after_10_iterations_witness:
  "(\<exists>st. moveIterations midpointRule samplePolyline 0 4 True = Some (False, st))
   \<and> moveSignedDistanceFromFractionGeneric midpointRule samplePolyline 0 4 True =
       Some \<lparr> curve = samplePolyline, fraction = 0, point = fractionToPoint samplePolyline 0,
              a_distance = 0, curveSearchStatus = Some error \<rparr>"
proof -
  obtain st where st: "moveIterations midpointRule samplePolyline 0 4 True = Some (False, st)"
    using samplePolyline_iterations by blast
  from generic_move_error_after_10_iterations [OF st] st show ?thesis by blast
qed

text \<open>
  Claim C4 says that on a curve without a proportional scale, when the length left in
  the direction of travel is smaller than the requested distance and extension is not
  allowed, the result is stoppedAtBoundary at that endpoint with \<open>a\<close> the achieved
  distance, returned before any iteration. The method does return before the loop,
  at the endpoint; but it passes the endpoint fraction itself, which does not exit
  [0,1], to \<open>createConditionalMoveSignedDistance\<close>, so the detail carries the status
  success and the requested distance. On the sample polyline of length 3, a move of 4
  from fraction 0 gives status success with \<open>a = 4\<close> at fraction 1.
\<close>

theorem generic_move_past_end_reports_success:
  "curveLengthBetweenFractions midpointRule samplePolyline 0 1 = 3
   \<and> moveIterations midpointRule samplePolyline 0 4 False = None
   \<and> map_option (\<lambda>r. (fraction r, point r, a_distance r, curveSearchStatus r))
        (moveSignedDistanceFromFraction midpointRule samplePolyline 0 4 False) =
       Some (1, Point3d 3 0 0, 4, Some success)"
  by (simp add: moveSignedDistanceFromFraction_def samplePolyline_scale
        moveSignedDistanceFromFractionGeneric_def moveIterations_def samplePolyline_between Let_def
        createConditionalMoveSignedDistance_def isIn01_def createCurveEvaluatedFraction_def
        samplePolyline_point)

text \<open>
  A move by the distance 0. Where the method reaches its result by finite arithmetic
  the detail stays at the start fraction with the status success: on a curve with a
  proportional scale and a non-zero length, for a start fraction in [0,1] or with
  extension allowed; on a curve without one, for a start fraction in [0,1] with a
  non-zero length back to fraction 0 and a non-zero tangent magnitude there. On the
  proportional path a start fraction outside [0,1] without extension is clamped to the
  boundary by \<open>createConditionalMoveSignedDistance\<close>.
\<close>

lemma move_zero_distance_stays:
  assumes "case getFractionToDistanceScale c of
             Some s \<Rightarrow> curveLength Q c \<noteq> 0 \<and> (allowExtension \<or> isIn01 f)
           | None \<Rightarrow> isIn01 f \<and> curveLengthBetweenFractions Q c f 0 \<noteq> 0 \<and> tangentMagnitude c f \<noteq> 0"
  shows "moveSignedDistanceFromFraction Q c f 0 allowExtension =
           Some \<lparr> curve = c, fraction = f, point = fractionToPoint c f, a_distance = 0,
                  curveSearchStatus = Some success \<rparr>"
proof (cases "getFractionToDistanceScale c")
  case (Some s)
  with assms have "curveLength Q c \<noteq> 0" and "allowExtension \<or> isIn01 f" by simp_all
  then show ?thesis
    by (auto simp: moveSignedDistanceFromFraction_def Some conditionalDivideFraction_def
          createConditionalMoveSignedDistance_def createCurveEvaluatedFraction_def)
next
  case None
  with assms have f: "isIn01 f" and len: "curveLengthBetweenFractions Q c f 0 \<noteq> 0"
    and speed: "tangentMagnitude c f \<noteq> 0" by simp_all
  from len length_between_nonneg [of Q c f 0]
  have pos: "0 < curveLengthBetweenFractions Q c f 0" by simp
  then have tol: "0 < (1 / 10 ^ 12) * curveLengthBetweenFractions Q c f 0" by simp
  have iter: "moveIterations Q c f 0 allowExtension =
          Some (True, \<lparr> fractionA = f, fractionB = f, distanceA = 0, numConverged = 100 \<rparr>)"
    using pos moveLoop_zero_distance [OF tol speed, of 10 Q]
    by (simp add: moveIterations_def Let_def interpolate_def)
  show ?thesis
    using pos f
    by (simp add: moveSignedDistanceFromFraction_def None moveSignedDistanceFromFractionGeneric_def
          iter createConditionalMoveSignedDistance_def createCurveEvaluatedFraction_def)
qed

lemma proportional_move_outside_range_is_clamped:
  "0 < curveLength midpointRule sampleLine
   \<and> map_option (\<lambda>r. (fraction r, point r, a_distance r, curveSearchStatus r))
        (moveSignedDistanceFromFraction midpointRule sampleLine 2 0 False) =
       Some (1, Point3d 2 0 0, 2, Some stoppedAtBoundary)
   \<and> fractionToPoint sampleLine 2 = Point3d 4 0 0"
  by (simp add: moveSignedDistanceFromFraction_def sampleLine_scale sampleLine_length
        conditionalDivideFraction_def createConditionalMoveSignedDistance_def isIn01_def
        createCurveEvaluatedFraction_def sampleLine_point curveLengthBetweenFractions_def)

lemma proportional_move_zero_distance_clamped:
  assumes "getFractionToDistanceScale c = Some s" and "curveLength Q c \<noteq> 0"
    and "\<not> isIn01 f"
  shows "moveSignedDistanceFromFraction Q c f 0 False =
           Some (if f < 0 then
                   \<lparr> curve = c, fraction = 0, point = fractionToPoint c 0,
                     a_distance = - curveLengthBetweenFractions Q c f 0,
                     curveSearchStatus = Some stoppedAtBoundary \<rparr>
                 else
                   \<lparr> curve = c, fraction = 1, point = fractionToPoint c 1,
                     a_distance = curveLengthBetweenFractions Q c f 1,
                     curveSearchStatus = Some stoppedAtBoundary \<rparr>)"
  using assms
  by (simp add: moveSignedDistanceFromFraction_def conditionalDivideFraction_def
        createConditionalMoveSignedDistance_def createCurveEvaluatedFraction_def)

lemma samplePolyline_curveLength: "curveLength Q samplePolyline = 3"
  by (simp add: curveLength_def samplePolyline_def getSum_def newCurveLengthContext_def
        lengthAnnounceSegmentInterval_def distance_def)

lemma generic_move_zero_distance_zero_length:
  assumes "getFractionToDistanceScale c = None"
    and "curveLengthBetweenFractions Q c f 0 = 0"
  shows "moveSignedDistanceFromFraction Q c f 0 allowExtension =
           Some \<lparr> curve = c, fraction = f, point = fractionToPoint c f, a_distance = 0,
                  curveSearchStatus = Some error \<rparr>"
  using assms
  by (simp add: moveSignedDistanceFromFraction_def moveSignedDistanceFromFractionGeneric_def
        createCurveEvaluatedFraction_def)

lemma length_between_same_fraction: "curveLengthBetweenFractions Q c f f = 0"
  by (simp add: curveLengthBetweenFractions_def)

text \<open>
  Claim C3 says that \<open>moveSignedDistanceFromFraction(f, 0, allowExtension)\<close> returns
  the point \<open>fractionToPoint(f)\<close> with \<open>a = 0\<close> and the status success for every
  curve of positive length and every fraction. On a curve without a proportional scale
  the code does not, at the start fraction 0: the available length back to fraction 0
  is 0, the seed estimate is 0/0, the loop never converges, and the detail has the
  status error. The sample polyline has length 3, and its move from fraction 0 by the
  distance 0 returns the status error, with either value of \<open>allowExtension\<close>; the
  segment with a proportional scale returns success for the same request.
\<close>

theorem generic_move_zero_distance_from_start_is_error:
  "curveLength Q samplePolyline = 3
   \<and> moveSignedDistanceFromFraction Q samplePolyline 0 0 allowExtension =
       Some \<lparr> curve = samplePolyline, fraction = 0, point = Point3d 0 0 0, a_distance = 0,
              curveSearchStatus = Some error \<rparr>
   \<and> moveSignedDistanceFromFraction Q sampleLine 0 0 allowExtension =
       Some \<lparr> curve = sampleLine, fraction = 0, point = Point3d 0 0 0, a_distance = 0,
              curveSearchStatus = Some success \<rparr>"
proof -
  have poly: "moveSignedDistanceFromFraction Q samplePolyline 0 0 allowExtension =
       Some \<lparr> curve = samplePolyline, fraction = 0, point = Point3d 0 0 0, a_distance = 0,
              curveSearchStatus = Some error \<rparr>"
    using generic_move_zero_distance_zero_length
            [OF samplePolyline_scale length_between_same_fraction, of Q allowExtension]
    by (simp add: samplePolyline_point)
  have "case getFractionToDistanceScale sampleLine of
          Some s \<Rightarrow> curveLength Q sampleLine \<noteq> 0 \<and> (allowExtension \<or> isIn01 0)
        | None \<Rightarrow> isIn01 0 \<and> curveLengthBetweenFractions Q sampleLine 0 0 \<noteq> 0
                 \<and> tangentMagnitude sampleLine 0 \<noteq> 0"
    by (simp add: sampleLine_scale sampleLine_length isIn01_def)
  from move_zero_distance_stays [OF this]
  have line: "moveSignedDistanceFromFraction Q sampleLine 0 0 allowExtension =
       Some \<lparr> curve = sampleLine, fraction = 0, point = Point3d 0 0 0, a_distance = 0,
              curveSearchStatus = Some success \<rparr>"
    by (simp add: sampleLine_point)
  from poly line show ?thesis
    by (simp add: samplePolyline_curveLength)
qed

end
